theory Spec2Isabelle
  imports Main "HOL-Library.Sublist"
begin

section \<open>The asset build pipeline of webpack.config.js\<close>

text \<open>
  The repository's build is the webpack configuration \<^verbatim>\<open>webpack.config.js\<close>: three
  style entry points, two file-name templates, four copy patterns and one hand-written
  plugin, \<^verbatim>\<open>GenerateRTL\<close>, whose callback is the only imperative code of the build.
  The constants and the callback below are translated from that file. What webpack and
  its plugins do with the configuration (rendering the chunk assets, copying, storing an
  asset) is not code of the repository; it is modelled as far as the configuration uses
  it, and each such definition says so.
\<close>

subsection \<open>Paths\<close>

text \<open>
  \<^verbatim>\<open>const folder = { src: "./src/", src_assets: "./src/assets/", dist: "./static/",
  dist_assets: "./static/assets/" }\<close>
\<close>

record folder_paths =
  src :: string
  src_assets :: string
  dist :: string
  dist_assets :: string

definition folder :: folder_paths where
  "folder = \<lparr>src = ''./src/'', src_assets = ''./src/assets/'',
             dist = ''./static/'', dist_assets = ''./static/assets/''\<rparr>"

text \<open>
  Node's \<^verbatim>\<open>path.join\<close> (POSIX): the arguments are joined with a slash and the result is
  normalised, which drops empty and \<^verbatim>\<open>.\<close> segments and resolves \<^verbatim>\<open>..\<close> against the
  segment before it. Every path of the configuration starts with \<^verbatim>\<open>__dirname\<close>; paths
  are kept relative to that directory here, so \<^verbatim>\<open>path.join(__dirname, a, b)\<close> is
  \<open>path_join [a, b]\<close>. None of the configuration's joined paths ends in a slash.
\<close>

fun segments :: "string \<Rightarrow> string list" where
  "segments [] = [[]]"
| "segments (c # cs) =
     (if c = CHR ''/'' then [] # segments cs
      else (case segments cs of [] \<Rightarrow> [[c]] | s # ss \<Rightarrow> (c # s) # ss))"

fun normalize_segments :: "string list \<Rightarrow> string list \<Rightarrow> string list" where
  "normalize_segments acc [] = rev acc"
| "normalize_segments acc (s # ss) =
     (if s = [] \<or> s = ''.'' then normalize_segments acc ss
      else if s = ''..'' then
        (case acc of
           [] \<Rightarrow> normalize_segments [s] ss
         | a # as \<Rightarrow> if a = ''..'' then normalize_segments (s # acc) ss
                    else normalize_segments as ss)
      else normalize_segments (s # acc) ss)"

fun join_segments :: "string list \<Rightarrow> string" where
  "join_segments [] = []"
| "join_segments [s] = s"
| "join_segments (s # t # ss) = s @ CHR ''/'' # join_segments (t # ss)"

definition path_join :: "string list \<Rightarrow> string" where
  "path_join parts = join_segments (normalize_segments [] (concat (map segments parts)))"

text \<open>
  Node's \<^verbatim>\<open>path.relative\<close> on two normalised paths: the common leading segments are
  dropped, each remaining segment of the base becomes \<^verbatim>\<open>..\<close>, and the rest of the target
  follows.
\<close>

fun strip_common :: "string list \<Rightarrow> string list \<Rightarrow> string list \<times> string list" where
  "strip_common (x # xs) (y # ys) =
     (if x = y then strip_common xs ys else (x # xs, y # ys))"
| "strip_common xs ys = (xs, ys)"

definition path_relative :: "string \<Rightarrow> string \<Rightarrow> string" where
  "path_relative base target =
     (case strip_common (segments base) (segments target) of
        (b, t) \<Rightarrow> join_segments (replicate (length b) ''..'' @ t))"

subsection \<open>The RTL pairs\<close>

text \<open>
  \<^verbatim>\<open>const cssPairs = [ { ltr: 'css/app.min.css', rtl: 'css/app-rtl.min.css' },
  { ltr: 'css/bootstrap.min.css', rtl: 'css/bootstrap-rtl.min.css' } ]\<close>
\<close>

record css_pair =
  ltr :: string
  rtl :: string

definition cssPairs :: "css_pair list" where
  "cssPairs =
     [\<lparr>ltr = ''css/app.min.css'', rtl = ''css/app-rtl.min.css''\<rparr>,
      \<lparr>ltr = ''css/bootstrap.min.css'', rtl = ''css/bootstrap-rtl.min.css''\<rparr>]"

subsection \<open>The compilation object\<close>

text \<open>
  An asset is a webpack-sources object; the configuration creates \<^verbatim>\<open>RawSource\<close> objects
  and reads an asset with \<^verbatim>\<open>.source()\<close>, which gives its text back.
\<close>

datatype source = RawSource string

fun source_text :: "source \<Rightarrow> string" where
  "source_text (RawSource s) = s"

text \<open>
  The part of webpack's compilation object that the configuration touches:
  \<^verbatim>\<open>compilation.assets\<close>, an object from asset name to source, and the error list that
  \<^verbatim>\<open>emitAsset\<close> appends to.
\<close>

record compilation =
  assets :: "string \<rightharpoonup> source"
  errors :: "string list"

definition emptyCompilation :: compilation where
  "emptyCompilation = \<lparr>assets = Map.empty, errors = []\<rparr>"

text \<open>
  webpack's \<^verbatim>\<open>Compilation.emitAsset(file, source)\<close>, as webpack 5 has it: a new name is
  stored; a name that already holds an equal source is left alone; a name that holds a
  different source gets a conflict error and the new source.
\<close>

definition emitAsset :: "string \<Rightarrow> source \<Rightarrow> compilation \<Rightarrow> compilation" where
  "emitAsset file s c =
     (case assets c file of
        None \<Rightarrow> c\<lparr>assets := (assets c)(file \<mapsto> s)\<rparr>
      | Some old \<Rightarrow>
          if old = s then c
          else c\<lparr>assets := (assets c)(file \<mapsto> s),
                 errors := errors c @
                   [''Conflict: Multiple assets emit different content to the same filename ''
                    @ file]\<rparr>)"

subsection \<open>The GenerateRTL plugin\<close>

text \<open>
  The options record passed to \<^verbatim>\<open>rtlcss.process\<close>. The flip itself is the rtlcss
  library; it is a parameter of the model, a function from CSS text and options to CSS
  text.
\<close>

record rtl_options =
  autoRename :: bool
  clean :: bool

type_synonym flip = "string \<Rightarrow> rtl_options \<Rightarrow> string"

text \<open>
  Exceptions of the build as values. \<open>TypeError\<close> is what JavaScript raises when
  \<^verbatim>\<open>.source()\<close> is called on \<^verbatim>\<open>undefined\<close>; its argument is the asset name that was
  looked up. \<open>ModuleBuildError\<close> is a style entry point that failed to compile.
\<close>

datatype exn = TypeError string | ModuleBuildError string

text \<open>
  \<^verbatim>\<open>Array.prototype.forEach\<close> with a callback that mutates a state and may throw: the
  callback runs on the elements in order, and the first exception ends the loop with the
  state as it is at that moment.
\<close>

fun forEach :: "('a \<Rightarrow> 's \<Rightarrow> exn option \<times> 's) \<Rightarrow> 'a list \<Rightarrow> 's \<Rightarrow> exn option \<times> 's" where
  "forEach f [] s = (None, s)"
| "forEach f (x # xs) s =
     (case f x s of
        (Some e, s') \<Rightarrow> (Some e, s')
      | (None, s') \<Rightarrow> forEach f xs s')"

text \<open>
  The body of the callback, for one pair:
  \<^verbatim>\<open>
  const ltrCss = compilation.assets[pair.ltr].source();
  const rtlCss = rtlcss.process(ltrCss, { autoRename: false, clean: false });
  compilation.emitAsset(pair.rtl, new RawSource(rtlCss));
  \<close>
  A name that is not in \<^verbatim>\<open>compilation.assets\<close> reads as \<^verbatim>\<open>undefined\<close> (or as a member of
  \<^verbatim>\<open>Object.prototype\<close>, which has no \<^verbatim>\<open>source\<close> method either), and the call of
  \<^verbatim>\<open>.source()\<close> on it throws.
\<close>

definition processPair :: "flip \<Rightarrow> css_pair \<Rightarrow> compilation \<Rightarrow> exn option \<times> compilation" where
  "processPair rtlcss_process pair c =
     (case assets c (ltr pair) of
        None \<Rightarrow> (Some (TypeError (ltr pair)), c)
      | Some a \<Rightarrow>
          (let ltrCss = source_text a;
               rtlCss = rtlcss_process ltrCss \<lparr>autoRename = False, clean = False\<rparr>
           in (None, emitAsset (rtl pair) (RawSource rtlCss) c)))"

text \<open>
  The callback registered on \<^verbatim>\<open>processAssets\<close>: \<^verbatim>\<open>cssPairs.forEach((pair) => ...)\<close>.
  \<open>generateRTL\<close> is the loop over any pair list, \<open>GenerateRTL\<close> the loop over the
  configured one.
\<close>

definition generateRTL :: "flip \<Rightarrow> css_pair list \<Rightarrow> compilation \<Rightarrow> exn option \<times> compilation" where
  "generateRTL rtlcss_process pairs c = forEach (processPair rtlcss_process) pairs c"

definition GenerateRTL :: "flip \<Rightarrow> compilation \<Rightarrow> exn option \<times> compilation" where
  "GenerateRTL rtlcss_process c = generateRTL rtlcss_process cssPairs c"

subsection \<open>The exported configuration\<close>

text \<open>
  A file-name template of webpack: each \<^verbatim>\<open>[name]\<close> in the template is replaced by the name
  of the chunk, here the name of the entry point. The text put in is not scanned again.
  \<^verbatim>\<open>[name]\<close> is the only placeholder in the templates of the configuration.
\<close>

function interpolate :: "string \<Rightarrow> string \<Rightarrow> string" where
  "interpolate [] name = []"
| "interpolate (c # cs) name =
     (if prefix ''[name]'' (c # cs) then name @ interpolate (drop 5 cs) name
      else c # interpolate cs name)"
  by pat_completeness auto
termination
  by (relation "measure (\<lambda>(template, name). length template)") auto

text \<open>One pattern of CopyWebpackPlugin: \<^verbatim>\<open>{ from: ..., to: ... }\<close>.\<close>

record copy_pattern =
  copy_from :: string
  copy_to :: string

text \<open>
  The fields of \<^verbatim>\<open>module.exports\<close> that decide the files of a build: \<^verbatim>\<open>mode\<close>,
  \<^verbatim>\<open>entry\<close>, \<^verbatim>\<open>output.path\<close>, \<^verbatim>\<open>output.filename\<close>, the \<^verbatim>\<open>filename\<close> of
  MiniCssExtractPlugin and the \<^verbatim>\<open>patterns\<close> of CopyWebpackPlugin. The development server,
  BrowserSyncPlugin and the performance hints serve the output and write none of it.
  \<^verbatim>\<open>output.path\<close> is \<^verbatim>\<open>path.resolve(__dirname, folder.dist_assets)\<close>, which is the
  joined path without its trailing slash. An entry maps a name to the file
  \<^verbatim>\<open>path.join(__dirname, folder.src_assets, 'scss/<name>.scss')\<close>; the names of a
  JavaScript object are unique, and the list keeps them in the order written.
\<close>

record webpack_config =
  mode :: string
  entry :: "(string \<times> string) list"
  output_path :: string
  output_filename :: string
  css_filename :: string
  patterns :: "copy_pattern list"

definition module_exports :: webpack_config where
  "module_exports =
     \<lparr>mode = ''development'',
      entry =
        [(''app'', path_join [src_assets folder, ''scss/app.scss'']),
         (''bootstrap'', path_join [src_assets folder, ''scss/bootstrap.scss'']),
         (''icons'', path_join [src_assets folder, ''scss/icons.scss''])],
      output_path = path_join [dist_assets folder],
      output_filename = ''chunk/[name].js'',
      css_filename = ''css/[name].min.css'',
      patterns =
        [\<lparr>copy_from = path_join [src_assets folder, ''images''],
          copy_to = path_join [dist_assets folder, ''images'']\<rparr>,
         \<lparr>copy_from = path_join [src_assets folder, ''js''],
          copy_to = path_join [dist_assets folder, ''js'']\<rparr>,
         \<lparr>copy_from = path_join [src_assets folder, ''libs''],
          copy_to = path_join [dist_assets folder, ''libs'']\<rparr>,
         \<lparr>copy_from = path_join [src_assets folder, ''libs''],
          copy_to = path_join [dist_assets folder, ''libs'']\<rparr>]\<rparr>"

text \<open>
  The copy configuration with the \<^verbatim>\<open>libs\<close> pattern listed once, for comparison with the
  configured one.
\<close>

definition patterns_listed_once :: "copy_pattern list" where
  "patterns_listed_once =
     [\<lparr>copy_from = path_join [src_assets folder, ''images''],
       copy_to = path_join [dist_assets folder, ''images'']\<rparr>,
      \<lparr>copy_from = path_join [src_assets folder, ''js''],
       copy_to = path_join [dist_assets folder, ''js'']\<rparr>,
      \<lparr>copy_from = path_join [src_assets folder, ''libs''],
       copy_to = path_join [dist_assets folder, ''libs'']\<rparr>]"

subsection \<open>The stages of a build\<close>

text \<open>
  The external collaborators of a build, as functions: the style loader chain of the
  \<^verbatim>\<open>.scss\<close> rule (sass-loader, css-loader, the loader of MiniCssExtractPlugin), which
  turns an entry file into the CSS text of its chunk or fails; webpack's rendering of the
  JavaScript chunk of an entry point; and the flip of rtlcss.
\<close>

record collaborators =
  sass :: "string \<Rightarrow> string option"
  render_chunk :: "string \<Rightarrow> string"
  rtlcss_process :: flip

text \<open>
  Modelled from the spec: the compile stage of webpack with MiniCssExtractPlugin, which is
  not code of the repository. For each entry point, in order, the style source is
  compiled into one CSS buffer, which becomes the asset named by the template of
  MiniCssExtractPlugin, beside the JavaScript chunk named by \<^verbatim>\<open>output.filename\<close>. An
  entry point that fails to compile ends the build with an error that names it.
\<close>

fun compileEntries ::
  "collaborators \<Rightarrow> webpack_config \<Rightarrow> (string \<times> string) list \<Rightarrow> compilation
     \<Rightarrow> exn option \<times> compilation" where
  "compileEntries ext cfg [] c = (None, c)"
| "compileEntries ext cfg ((name, file) # es) c =
     (case sass ext file of
        None \<Rightarrow> (Some (ModuleBuildError name), c)
      | Some css \<Rightarrow>
          compileEntries ext cfg es
            (emitAsset (interpolate (css_filename cfg) name) (RawSource css)
              (emitAsset (interpolate (output_filename cfg) name)
                 (RawSource (render_chunk ext name)) c)))"

text \<open>
  Modelled from the spec: the copy stage of CopyWebpackPlugin, which is not code of the
  repository. The file system is a list of files, each a path relative to
  \<^verbatim>\<open>__dirname\<close> and its bytes. Every file below the \<^verbatim>\<open>from\<close> directory of a pattern is
  copied verbatim to the same relative path below the \<^verbatim>\<open>to\<close> directory, which is taken
  relative to \<^verbatim>\<open>output.path\<close>; a file already there is overwritten. A \<^verbatim>\<open>from\<close> directory
  with no file below it copies nothing; what the plugin reports for it is not modelled.
\<close>

definition copyFile ::
  "string \<Rightarrow> copy_pattern \<Rightarrow> string \<times> string \<Rightarrow> compilation \<Rightarrow> compilation" where
  "copyFile outputPath p file c =
     (case file of
        (name, bytes) \<Rightarrow>
          if prefix (copy_from p @ ''/'') name
          then c\<lparr>assets := (assets c)
                  (path_relative outputPath (copy_to p) @ ''/'' @
                     drop (length (copy_from p) + 1) name \<mapsto> RawSource bytes)\<rparr>
          else c)"

definition copyPattern ::
  "string \<Rightarrow> (string \<times> string) list \<Rightarrow> copy_pattern \<Rightarrow> compilation \<Rightarrow> compilation" where
  "copyPattern outputPath files p c = fold (copyFile outputPath p) files c"

definition copyAssets ::
  "webpack_config \<Rightarrow> (string \<times> string) list \<Rightarrow> compilation \<Rightarrow> compilation" where
  "copyAssets cfg files c = fold (copyPattern (output_path cfg) files) (patterns cfg) c"

text \<open>
  Modelled from the spec: the order of the stages, which is webpack's and not code of the
  repository. The entry points are compiled and their assets created; then the callbacks
  on \<^verbatim>\<open>processAssets\<close> run, at the one stage the configuration uses
  (\<^verbatim>\<open>PROCESS_ASSETS_STAGE_ADDITIONAL\<close>) in the order of the plugin list, CopyWebpackPlugin
  before GenerateRTL. \<open>sealedAssets\<close> is the compilation as it is handed to GenerateRTL,
  \<open>build\<close> the whole run; an exception of a stage ends it.
\<close>

definition sealedAssets ::
  "collaborators \<Rightarrow> webpack_config \<Rightarrow> (string \<times> string) list \<Rightarrow> exn option \<times> compilation" where
  "sealedAssets ext cfg files =
     (case compileEntries ext cfg (entry cfg) emptyCompilation of
        (Some e, c) \<Rightarrow> (Some e, c)
      | (None, c) \<Rightarrow> (None, copyAssets cfg files c))"

definition build ::
  "collaborators \<Rightarrow> webpack_config \<Rightarrow> (string \<times> string) list \<Rightarrow> exn option \<times> compilation" where
  "build ext cfg files =
     (case sealedAssets ext cfg files of
        (Some e, c) \<Rightarrow> (Some e, c)
      | (None, c) \<Rightarrow> GenerateRTL (rtlcss_process ext) c)"

subsection \<open>A sample project\<close>

text \<open>
  Concrete collaborators and files, on which the theorems below are evaluated: style
  sources that compile to one rule each, a flip that turns \<^verbatim>\<open>left\<close> into \<^verbatim>\<open>right\<close> in
  that rule and leaves other text alone, and a project with one image and one vendor
  script.
\<close>

definition sample_flip :: flip where
  "sample_flip css opts = (if css = ''a{float:left}'' then ''a{float:right}'' else css)"

definition sample_sass :: "string \<Rightarrow> string option" where
  "sample_sass file =
     (if file = ''src/assets/scss/app.scss'' then Some ''a{float:left}''
      else if file = ''src/assets/scss/bootstrap.scss'' then Some ''b{color:red}''
      else if file = ''src/assets/scss/icons.scss'' then Some ''i{top:0}''
      else None)"

definition sample_collaborators :: collaborators where
  "sample_collaborators =
     \<lparr>sass = sample_sass, render_chunk = (@) ''// '', rtlcss_process = sample_flip\<rparr>"

definition sample_files :: "(string \<times> string) list" where
  "sample_files =
     [(''src/assets/images/logo.png'', ''PNG''),
      (''src/assets/libs/jquery/jquery.min.js'', ''jq''),
      (''src/assets/scss/app.scss'', ''a{float:left}'')]"

section \<open>Properties\<close>

subsection \<open>Names and paths of the configuration\<close>

lemma css_filename_name:
  "interpolate ''css/[name].min.css'' n = ''css/'' @ n @ ''.min.css''"
  by simp

lemma output_filename_name:
  "interpolate ''chunk/[name].js'' n = ''chunk/'' @ n @ ''.js''"
  by simp

lemma module_exports_paths:
  "entry module_exports =
     [(''app'', ''src/assets/scss/app.scss''),
      (''bootstrap'', ''src/assets/scss/bootstrap.scss''),
      (''icons'', ''src/assets/scss/icons.scss'')]"
  "output_path module_exports = ''static/assets''"
  "output_filename module_exports = ''chunk/[name].js''"
  "css_filename module_exports = ''css/[name].min.css''"
  "patterns module_exports =
     [\<lparr>copy_from = ''src/assets/images'', copy_to = ''static/assets/images''\<rparr>,
      \<lparr>copy_from = ''src/assets/js'', copy_to = ''static/assets/js''\<rparr>,
      \<lparr>copy_from = ''src/assets/libs'', copy_to = ''static/assets/libs''\<rparr>,
      \<lparr>copy_from = ''src/assets/libs'', copy_to = ''static/assets/libs''\<rparr>]"
  by (simp_all add: module_exports_def folder_def path_join_def)

lemma copy_targets:
  "path_relative ''static/assets'' ''static/assets/images'' = ''images''"
  "path_relative ''static/assets'' ''static/assets/js'' = ''js''"
  "path_relative ''static/assets'' ''static/assets/libs'' = ''libs''"
  by (simp_all add: path_relative_def)

lemmas sample_eval =
  sealedAssets_def build_def GenerateRTL_def generateRTL_def processPair_def cssPairs_def
  module_exports_paths emptyCompilation_def emitAsset_def copyAssets_def copyPattern_def
  copyFile_def copy_targets sample_collaborators_def sample_sass_def sample_flip_def
  sample_files_def Let_def

subsection \<open>Storing an asset\<close>

lemma emitAsset_same: "assets (emitAsset n s c) n = Some s"
  by (simp add: emitAsset_def split: option.splits)

lemma emitAsset_other: "m \<noteq> n \<Longrightarrow> assets (emitAsset n s c) m = assets c m"
  by (simp add: emitAsset_def split: option.splits)

lemma dom_emitAsset: "dom (assets (emitAsset n s c)) = insert n (dom (assets c))"
  by (auto simp: emitAsset_def split: option.splits)

subsection \<open>The loop of GenerateRTL\<close>

lemma processPair_other:
  "n \<noteq> rtl p \<Longrightarrow> assets (snd (processPair f p c)) n = assets c n"
  by (simp add: processPair_def Let_def emitAsset_other split: option.splits)

lemma processPair_present:
  "assets c (ltr p) = Some a \<Longrightarrow>
   processPair f p c =
     (None, emitAsset (rtl p)
        (RawSource (f (source_text a) \<lparr>autoRename = False, clean = False\<rparr>)) c)"
  by (simp add: processPair_def)

lemma processPair_absent:
  "assets c (ltr p) = None \<Longrightarrow> processPair f p c = (Some (TypeError (ltr p)), c)"
  by (simp add: processPair_def)

lemma generateRTL_Nil: "generateRTL f [] c = (None, c)"
  by (simp add: generateRTL_def)

lemma generateRTL_Cons:
  "generateRTL f (p # ps) c =
     (case processPair f p c of
        (Some e, c') \<Rightarrow> (Some e, c')
      | (None, c') \<Rightarrow> generateRTL f ps c')"
  unfolding generateRTL_def by simp

lemma generateRTL_append:
  "generateRTL f (ps @ qs) c =
     (case generateRTL f ps c of
        (Some e, c') \<Rightarrow> (Some e, c')
      | (None, c') \<Rightarrow> generateRTL f qs c')"
  by (induction ps arbitrary: c)
     (auto simp: generateRTL_Nil generateRTL_Cons split: prod.splits option.splits)

lemma generateRTL_other:
  "n \<notin> rtl ` set ps \<Longrightarrow> assets (snd (generateRTL f ps c)) n = assets c n"
proof (induction ps arbitrary: c)
  case Nil
  then show ?case by (simp add: generateRTL_Nil)
next
  case (Cons p ps)
  then have n: "n \<noteq> rtl p" and rest: "n \<notin> rtl ` set ps" by auto
  show ?case
  proof (cases "processPair f p c")
    case (Pair e c')
    have c': "assets c' n = assets c n"
      using processPair_other [OF n, of f c] Pair by simp
    show ?thesis
      using Pair c' Cons.IH [OF rest, of c']
      by (cases e) (simp_all add: generateRTL_Cons)
  qed
qed

lemma generateRTL_dom_mono:
  "dom (assets c) \<subseteq> dom (assets (snd (generateRTL f ps c)))"
proof (induction ps arbitrary: c)
  case Nil
  then show ?case by (simp add: generateRTL_Nil)
next
  case (Cons p ps)
  show ?case
  proof (cases "assets c (ltr p)")
    case None
    then show ?thesis by (simp add: generateRTL_Cons processPair_absent)
  next
    case (Some a)
    let ?c' = "emitAsset (rtl p)
        (RawSource (f (source_text a) \<lparr>autoRename = False, clean = False\<rparr>)) c"
    have "dom (assets c) \<subseteq> dom (assets ?c')" by (auto simp: dom_emitAsset)
    also have "\<dots> \<subseteq> dom (assets (snd (generateRTL f ps ?c')))" by (rule Cons.IH)
    finally show ?thesis by (simp add: generateRTL_Cons processPair_present [OF Some])
  qed
qed

lemma generateRTL_completes:
  "\<forall>q\<in>set ps. ltr q \<in> dom (assets c) \<Longrightarrow> fst (generateRTL f ps c) = None"
proof (induction ps arbitrary: c)
  case Nil
  then show ?case by (simp add: generateRTL_Nil)
next
  case (Cons p ps)
  then obtain a where a: "assets c (ltr p) = Some a" by auto
  let ?c' = "emitAsset (rtl p)
      (RawSource (f (source_text a) \<lparr>autoRename = False, clean = False\<rparr>)) c"
  have "\<forall>q\<in>set ps. ltr q \<in> dom (assets ?c')" using Cons.prems by (auto simp: dom_emitAsset)
  from Cons.IH [OF this] show ?case
    by (simp add: generateRTL_Cons processPair_present [OF a])
qed

lemma generateRTL_dom:
  "fst (generateRTL f ps c) = None \<Longrightarrow>
   dom (assets (snd (generateRTL f ps c))) = dom (assets c) \<union> rtl ` set ps"
proof (induction ps arbitrary: c)
  case Nil
  then show ?case by (simp add: generateRTL_Nil)
next
  case (Cons p ps)
  show ?case
  proof (cases "assets c (ltr p)")
    case None
    with Cons.prems show ?thesis by (simp add: generateRTL_Cons processPair_absent)
  next
    case (Some a)
    let ?c' = "emitAsset (rtl p)
        (RawSource (f (source_text a) \<lparr>autoRename = False, clean = False\<rparr>)) c"
    have run: "generateRTL f (p # ps) c = generateRTL f ps ?c'"
      by (simp add: generateRTL_Cons processPair_present [OF Some])
    with Cons.prems have "fst (generateRTL f ps ?c') = None" by simp
    from Cons.IH [OF this] show ?thesis by (auto simp: run dom_emitAsset)
  qed
qed

text \<open>
  The first pair whose LTR asset is missing ends the loop: the result is the exception
  and the state that the pairs before it left.
\<close>

lemma generateRTL_first_missing:
  assumes before: "\<forall>q\<in>set ps. ltr q \<in> dom (assets c)"
      and absent: "assets c (ltr p) = None"
      and fresh: "ltr p \<notin> rtl ` set ps"
  shows "generateRTL f (ps @ p # qs) c
           = (Some (TypeError (ltr p)), snd (generateRTL f ps c))
       \<and> (\<forall>n. n \<notin> rtl ` set ps \<longrightarrow>
             assets (snd (generateRTL f (ps @ p # qs) c)) n = assets c n)"
proof -
  obtain c' where run: "generateRTL f ps c = (None, c')"
    using generateRTL_completes [OF before, of f] by (cases "generateRTL f ps c") auto
  have "assets c' (ltr p) = assets c (ltr p)"
    using generateRTL_other [OF fresh, of f c] run by simp
  then have "assets c' (ltr p) = None" using absent by simp
  then have step: "processPair f p c' = (Some (TypeError (ltr p)), c')"
    by (rule processPair_absent)
  have whole: "generateRTL f (ps @ p # qs) c = (Some (TypeError (ltr p)), c')"
    by (simp add: generateRTL_append run generateRTL_Cons step)
  moreover have "\<forall>n. n \<notin> rtl ` set ps \<longrightarrow> assets c' n = assets c n"
    using generateRTL_other [of _ ps f c] run by simp
  ultimately show ?thesis using run by simp
qed

lemma cssPairs_names:
  "distinct (map rtl cssPairs)"
  "\<forall>x\<in>set cssPairs. \<forall>y\<in>set cssPairs. ltr x \<noteq> rtl y"
  by (simp_all add: cssPairs_def)

lemma generateRTL_registers:
  assumes before: "\<forall>q\<in>set ps. ltr q \<in> dom (assets c)"
      and present: "assets c (ltr p) = Some a"
      and unread: "ltr p \<notin> rtl ` set ps"
      and last: "rtl p \<notin> rtl ` set qs"
  shows "assets (snd (generateRTL f (ps @ p # qs) c)) (rtl p)
           = Some (RawSource (f (source_text a) \<lparr>autoRename = False, clean = False\<rparr>))"
proof -
  obtain c' where run: "generateRTL f ps c = (None, c')"
    using generateRTL_completes [OF before, of f] by (cases "generateRTL f ps c") auto
  have "assets c' (ltr p) = assets c (ltr p)"
    using generateRTL_other [OF unread, of f c] run by simp
  then have here: "assets c' (ltr p) = Some a" using present by simp
  let ?c'' = "emitAsset (rtl p)
      (RawSource (f (source_text a) \<lparr>autoRename = False, clean = False\<rparr>)) c'"
  have whole: "generateRTL f (ps @ p # qs) c = generateRTL f qs ?c''"
    by (simp add: generateRTL_append run generateRTL_Cons processPair_present [OF here])
  have "assets (snd (generateRTL f qs ?c'')) (rtl p) = assets ?c'' (rtl p)"
    by (rule generateRTL_other [OF last])
  then show ?thesis by (simp add: whole emitAsset_same)
qed

subsection \<open>A pair whose LTR asset is missing\<close>

lemma generateRTL_prefix_registered:
  assumes before: "\<forall>r\<in>set ps. ltr r \<in> dom (assets c)"
      and rtls: "distinct (map rtl ps)"
      and apart: "\<forall>x\<in>set ps. \<forall>y\<in>set ps. ltr x \<noteq> rtl y"
      and r: "r \<in> set ps"
  shows "\<exists>a. assets c (ltr r) = Some a
           \<and> assets (snd (generateRTL f ps c)) (rtl r)
               = Some (RawSource (f (source_text a) \<lparr>autoRename = False, clean = False\<rparr>))"
proof -
  from r obtain xs ys where split: "ps = xs @ r # ys"
    by (auto simp: in_set_conv_decomp)
  from before r obtain a where a: "assets c (ltr r) = Some a" by auto
  have b: "\<forall>q\<in>set xs. ltr q \<in> dom (assets c)" using before by (simp add: split)
  have unread: "ltr r \<notin> rtl ` set xs" using apart by (auto simp: split)
  have last: "rtl r \<notin> rtl ` set ys" using rtls by (auto simp: split)
  from generateRTL_registers [OF b a unread last, of f] a show ?thesis
    by (simp add: split)
qed

lemma build_sealed:
  "sealedAssets ext cfg files = (None, c) \<Longrightarrow>
   build ext cfg files = GenerateRTL (rtlcss_process ext) c"
  by (simp add: build_def)

text \<open>
  Claim C1, as amended. The callback has no guard for a missing LTR asset. For every
  configured pair \<open>p\<close> whose LTR source asset is absent from the asset collection when
  the hook runs, the build does not complete. The pair list splits at the first pair
  \<open>q\<close> whose LTR asset is absent (every pair before it has its LTR asset, and \<open>p\<close> is
  \<open>q\<close> or comes after it); the hook raises a \<open>TypeError\<close> for the LTR name of \<open>q\<close> and
  stops there, its result being that exception and the compilation as the pairs before
  \<open>q\<close> left it. The pairs before \<open>q\<close> have been processed, each RTL asset holding the
  flip of its LTR text; for \<open>q\<close> and for every pair after it, whether its LTR asset
  exists or not, the asset under the RTL name is what it was before the hook, so no pair
  is skipped and nothing is registered behind the failure. A build whose earlier stages
  hand this collection to the hook ends with the same exception and compilation.
\<close>

theorem GenerateRTL_missing_ltr_raises:
  assumes pair: "p \<in> set cssPairs"
      and absent: "assets c (ltr p) = None"
  shows "\<exists>ps q qs.
           cssPairs = ps @ q # qs
         \<and> (\<forall>r\<in>set ps. ltr r \<in> dom (assets c))
         \<and> assets c (ltr q) = None
         \<and> p \<in> set (q # qs)
         \<and> GenerateRTL f c = (Some (TypeError (ltr q)), snd (generateRTL f ps c))
         \<and> (\<forall>r\<in>set ps. \<exists>a. assets c (ltr r) = Some a
               \<and> assets (snd (GenerateRTL f c)) (rtl r)
                   = Some (RawSource (f (source_text a) \<lparr>autoRename = False, clean = False\<rparr>)))
         \<and> (\<forall>r\<in>set (q # qs). assets (snd (GenerateRTL f c)) (rtl r) = assets c (rtl r))
         \<and> (\<forall>ext cfg files.
               rtlcss_process ext = f \<and> sealedAssets ext cfg files = (None, c) \<longrightarrow>
               build ext cfg files = (Some (TypeError (ltr q)), snd (generateRTL f ps c)))"
proof -
  from pair absent have "\<exists>r\<in>set cssPairs. assets c (ltr r) = None" by blast
  then obtain ps q qs
    where split: "cssPairs = ps @ q # qs"
      and q: "assets c (ltr q) = None"
      and ps: "\<forall>r\<in>set ps. assets c (ltr r) \<noteq> None"
    using split_list_first_prop [of cssPairs "\<lambda>r. assets c (ltr r) = None"] by blast
  have before: "\<forall>r\<in>set ps. ltr r \<in> dom (assets c)"
    using ps by (simp add: dom_def)
  have sub: "q \<in> set cssPairs" "set ps \<subseteq> set cssPairs"
    by (auto simp: split)
  then have fresh: "ltr q \<notin> rtl ` set ps"
    using cssPairs_names(2) by blast
  note first = generateRTL_first_missing [OF before q fresh, of f qs]
  have run: "GenerateRTL f c = (Some (TypeError (ltr q)), snd (generateRTL f ps c))"
    unfolding GenerateRTL_def split by (rule first [THEN conjunct1])
  have frame: "\<forall>n. n \<notin> rtl ` set ps \<longrightarrow> assets (snd (GenerateRTL f c)) n = assets c n"
    unfolding GenerateRTL_def split by (rule first [THEN conjunct2])
  have "p \<notin> set ps" using ps absent by blast
  then have behind: "p \<in> set (q # qs)" using pair by (simp add: split)
  have dist: "distinct (map rtl (ps @ q # qs))"
    using cssPairs_names(1) by (simp only: split)
  then have "\<forall>r\<in>set (q # qs). rtl r \<notin> rtl ` set ps" by auto
  then have untouched: "\<forall>r\<in>set (q # qs). assets (snd (GenerateRTL f c)) (rtl r) = assets c (rtl r)"
    using frame by blast
  have rtls: "distinct (map rtl ps)" using dist by simp
  have apart: "\<forall>x\<in>set ps. \<forall>y\<in>set ps. ltr x \<noteq> rtl y"
    using cssPairs_names(2) sub(2) by blast
  have done_before: "\<forall>r\<in>set ps. \<exists>a. assets c (ltr r) = Some a
               \<and> assets (snd (GenerateRTL f c)) (rtl r)
                   = Some (RawSource (f (source_text a) \<lparr>autoRename = False, clean = False\<rparr>))"
    using generateRTL_prefix_registered [OF before rtls apart, of _ f] by (simp add: run)
  have whole: "\<forall>ext cfg files.
               rtlcss_process ext = f \<and> sealedAssets ext cfg files = (None, c) \<longrightarrow>
               build ext cfg files = (Some (TypeError (ltr q)), snd (generateRTL f ps c))"
    using run by (auto simp: build_sealed)
  from split before q behind run done_before untouched whole show ?thesis by blast
qed

text \<open>
  The amended claim on a build with the single entry point \<^verbatim>\<open>app\<close>: the compile and
  copy stages succeed, the pair of the app style sheet is processed, and the build
  fails at the pair of the bootstrap style sheet, for which nothing is registered.
\<close>

theorem GenerateRTL_missing_ltr_raises_witness:
  "fst (build sample_collaborators
          (module_exports\<lparr>entry := [(''app'', ''src/assets/scss/app.scss'')]\<rparr>) sample_files)
     = Some (TypeError ''css/bootstrap.min.css'')
   \<and> assets (snd (build sample_collaborators
          (module_exports\<lparr>entry := [(''app'', ''src/assets/scss/app.scss'')]\<rparr>) sample_files))
       ''css/app-rtl.min.css'' = Some (RawSource ''a{float:right}'')
   \<and> assets (snd (build sample_collaborators
          (module_exports\<lparr>entry := [(''app'', ''src/assets/scss/app.scss'')]\<rparr>) sample_files))
       ''css/bootstrap-rtl.min.css'' = None"
proof -
  let ?cfg = "module_exports\<lparr>entry := [(''app'', ''src/assets/scss/app.scss'')]\<rparr>"
  let ?c = "snd (sealedAssets sample_collaborators ?cfg sample_files)"
  let ?p = "\<lparr>ltr = ''css/bootstrap.min.css'', rtl = ''css/bootstrap-rtl.min.css''\<rparr>"
  have pair: "?p \<in> set cssPairs" by (simp add: cssPairs_def)
  have absent: "assets ?c (ltr ?p) = None" by (simp add: sample_eval)
  from GenerateRTL_missing_ltr_raises [OF pair absent, of sample_flip]
  show ?thesis by (simp add: sample_eval)
qed


text \<open>
  Claim C1 as stated fails. On a compilation without \<^verbatim>\<open>css/app.min.css\<close> the hook does
  not complete, and the pair of \<^verbatim>\<open>css/bootstrap.min.css\<close>, whose LTR asset is there, is
  not processed.
\<close>

theorem GenerateRTL_missing_ltr_counterexample:
  "fst (GenerateRTL sample_flip
          \<lparr>assets = [''css/bootstrap.min.css'' \<mapsto> RawSource ''b{color:red}''],
           errors = []\<rparr>)
     = Some (TypeError ''css/app.min.css'')
   \<and> assets (snd (GenerateRTL sample_flip
          \<lparr>assets = [''css/bootstrap.min.css'' \<mapsto> RawSource ''b{color:red}''],
           errors = []\<rparr>))
       ''css/bootstrap-rtl.min.css'' = None"
  by (simp add: GenerateRTL_def generateRTL_def cssPairs_def processPair_def)

subsection \<open>What the hook registers\<close>

text \<open>
  Claim C4, as amended. For every configured pair that the loop reaches, that is, the LTR
  assets of the pairs listed before it exist, and whose own LTR asset exists, the hook
  passes the text of the LTR asset to the flip with \<open>autoRename\<close> off and \<open>clean\<close> off
  and registers the result, wrapped in a \<open>RawSource\<close>, under the RTL name of the pair.
  This holds whether or not a later pair then raises.
\<close>

theorem GenerateRTL_registers_flip:
  assumes split: "cssPairs = ps @ p # qs"
      and before: "\<forall>q\<in>set ps. ltr q \<in> dom (assets c)"
      and present: "assets c (ltr p) = Some a"
  shows "assets (snd (GenerateRTL f c)) (rtl p)
           = Some (RawSource (f (source_text a) \<lparr>autoRename = False, clean = False\<rparr>))"
proof -
  have "distinct (map rtl (ps @ p # qs))"
    using cssPairs_names(1) split by simp
  then have last: "rtl p \<notin> rtl ` set qs" by auto
  have "p \<in> set cssPairs" and "set ps \<subseteq> set cssPairs"
    by (auto simp: split)
  then have unread: "ltr p \<notin> rtl ` set ps"
    using cssPairs_names(2) by blast
  show ?thesis
    unfolding GenerateRTL_def split
    by (rule generateRTL_registers [OF before present unread last])
qed

text \<open>
  The amended claim at the second pair, on a compilation that holds both LTR style
  sheets: the loop reaches the pair and registers the flipped text under its RTL name.
\<close>

theorem GenerateRTL_registers_flip_witness:
  "assets (snd (GenerateRTL sample_flip
      \<lparr>assets = [''css/app.min.css'' \<mapsto> RawSource ''i{top:0}'',
                  ''css/bootstrap.min.css'' \<mapsto> RawSource ''a{float:left}''],
       errors = []\<rparr>))
     ''css/bootstrap-rtl.min.css'' = Some (RawSource ''a{float:right}'')"
  using GenerateRTL_registers_flip [of
      "[\<lparr>ltr = ''css/app.min.css'', rtl = ''css/app-rtl.min.css''\<rparr>]"
      "\<lparr>ltr = ''css/bootstrap.min.css'', rtl = ''css/bootstrap-rtl.min.css''\<rparr>" "[]"
      "\<lparr>assets = [''css/app.min.css'' \<mapsto> RawSource ''i{top:0}'',
                   ''css/bootstrap.min.css'' \<mapsto> RawSource ''a{float:left}''],
        errors = []\<rparr>"
      "RawSource ''a{float:left}''" sample_flip]
  by (simp add: cssPairs_def sample_flip_def)

text \<open>
  Claim C4 as stated fails for a pair behind a pair whose LTR asset is missing: the LTR
  asset \<^verbatim>\<open>css/bootstrap.min.css\<close> exists, and no asset \<^verbatim>\<open>css/bootstrap-rtl.min.css\<close> is
  registered, because the loop ends at the first pair.
\<close>

theorem GenerateRTL_unreached_pair_counterexample:
  "assets \<lparr>assets = [''css/bootstrap.min.css'' \<mapsto> RawSource ''b{color:red}'',
                      ''css/icons.min.css'' \<mapsto> RawSource ''i{top:0}''],
           errors = []\<rparr> ''css/bootstrap.min.css'' = Some (RawSource ''b{color:red}'')
   \<and> assets (snd (GenerateRTL sample_flip
         \<lparr>assets = [''css/bootstrap.min.css'' \<mapsto> RawSource ''b{color:red}'',
                     ''css/icons.min.css'' \<mapsto> RawSource ''i{top:0}''],
          errors = []\<rparr>)) ''css/bootstrap-rtl.min.css'' = None"
  by (simp add: GenerateRTL_def generateRTL_def cssPairs_def processPair_def)

subsection \<open>What the hook leaves alone\<close>

text \<open>
  Claim C5. The hook changes no asset other than the RTL assets it registers: every asset
  whose name is not the RTL name of a configured pair is after the hook what it was
  before, whether the hook completes or raises; the LTR assets of the configured pairs
  are among these, since no LTR name of a pair is the RTL name of a pair.
\<close>

theorem GenerateRTL_leaves_other_assets:
  "(\<forall>n. n \<notin> rtl ` set cssPairs \<longrightarrow> assets (snd (GenerateRTL f c)) n = assets c n)
   \<and> (\<forall>p\<in>set cssPairs. assets (snd (GenerateRTL f c)) (ltr p) = assets c (ltr p))"
proof -
  have frame: "\<forall>n. n \<notin> rtl ` set cssPairs \<longrightarrow> assets (snd (GenerateRTL f c)) n = assets c n"
    unfolding GenerateRTL_def by (simp add: generateRTL_other)
  moreover have "\<forall>p\<in>set cssPairs. ltr p \<notin> rtl ` set cssPairs"
    using cssPairs_names(2) by auto
  ultimately show ?thesis by blast
qed

text \<open>
  On a compilation with both LTR style sheets and a copied image: the app style sheet is
  unchanged after the hook, and its RTL variant is registered beside it.
\<close>

theorem GenerateRTL_leaves_other_assets_witness:
  "''css/app.min.css'' \<notin> rtl ` set cssPairs
   \<and> assets (snd (GenerateRTL sample_flip
         \<lparr>assets = [''css/app.min.css'' \<mapsto> RawSource ''a{float:left}'',
                     ''css/bootstrap.min.css'' \<mapsto> RawSource ''b{color:red}'',
                     ''images/logo.png'' \<mapsto> RawSource ''PNG''],
          errors = []\<rparr>)) ''css/app.min.css'' = Some (RawSource ''a{float:left}'')
   \<and> assets (snd (GenerateRTL sample_flip
         \<lparr>assets = [''css/app.min.css'' \<mapsto> RawSource ''a{float:left}'',
                     ''css/bootstrap.min.css'' \<mapsto> RawSource ''b{color:red}'',
                     ''images/logo.png'' \<mapsto> RawSource ''PNG''],
          errors = []\<rparr>)) ''css/app-rtl.min.css'' = Some (RawSource ''a{float:right}'')"
  using GenerateRTL_leaves_other_assets [of sample_flip
      "\<lparr>assets = [''css/app.min.css'' \<mapsto> RawSource ''a{float:left}'',
                   ''css/bootstrap.min.css'' \<mapsto> RawSource ''b{color:red}'',
                   ''images/logo.png'' \<mapsto> RawSource ''PNG''],
        errors = []\<rparr>"]
  by (simp add: cssPairs_def GenerateRTL_def generateRTL_def processPair_def
      emitAsset_def sample_flip_def Let_def)

subsection \<open>The compile stage\<close>

lemma compileEntries_dom:
  "compileEntries ext cfg es c = (None, c') \<Longrightarrow>
   dom (assets c') =
     dom (assets c) \<union> interpolate (css_filename cfg) ` fst ` set es
       \<union> interpolate (output_filename cfg) ` fst ` set es"
proof (induction ext cfg es c rule: compileEntries.induct)
  case (1 ext cfg c)
  then show ?case by simp
next
  case (2 ext cfg name path es c)
  then obtain css where css: "sass ext path = Some css"
    by (cases "sass ext path") auto
  from "2.prems" "2.IH" [OF css] css show ?case
    by (auto simp: dom_emitAsset)
qed

lemma compileEntries_other:
  "k \<notin> interpolate (css_filename cfg) ` fst ` set es \<Longrightarrow>
   k \<notin> interpolate (output_filename cfg) ` fst ` set es \<Longrightarrow>
   assets (snd (compileEntries ext cfg es c)) k = assets c k"
proof (induction ext cfg es c rule: compileEntries.induct)
  case (1 ext cfg c)
  then show ?case by simp
next
  case (2 ext cfg name path es c)
  show ?case
  proof (cases "sass ext path")
    case None
    then show ?thesis by simp
  next
    case (Some css)
    from "2.prems" "2.IH" [OF Some] Some show ?thesis
      by (simp add: emitAsset_other)
  qed
qed

lemma compileEntries_css:
  assumes css: "css_filename cfg = ''css/[name].min.css''"
      and js: "output_filename cfg = ''chunk/[name].js''"
  shows "distinct (map fst es) \<Longrightarrow> compileEntries ext cfg es c = (None, c') \<Longrightarrow>
         (n, file) \<in> set es \<Longrightarrow>
         \<exists>text. sass ext file = Some text
            \<and> assets c' (''css/'' @ n @ ''.min.css'') = Some (RawSource text)"
proof (induction es arbitrary: c)
  case Nil
  then show ?case by simp
next
  case (Cons e es)
  obtain m g where e: "e = (m, g)" by (cases e)
  from Cons.prems(2) e obtain compiled where compiled: "sass ext g = Some compiled"
    by (cases "sass ext g") auto
  let ?c1 = "emitAsset (interpolate (css_filename cfg) m) (RawSource compiled)
      (emitAsset (interpolate (output_filename cfg) m) (RawSource (render_chunk ext m)) c)"
  have run: "compileEntries ext cfg es ?c1 = (None, c')"
    using Cons.prems(2) e compiled by simp
  show ?case
  proof (cases "(n, file) = (m, g)")
    case True
    then have n: "n = m" and g: "file = g" by simp_all
    have "m \<notin> fst ` set es" using Cons.prems(1) e by simp
    then have "''css/'' @ m @ ''.min.css'' \<notin> interpolate (css_filename cfg) ` fst ` set es"
      by (auto simp: css)
    moreover have "''css/'' @ m @ ''.min.css'' \<notin> interpolate (output_filename cfg) ` fst ` set es"
      by (auto simp: js)
    ultimately have "assets (snd (compileEntries ext cfg es ?c1)) (''css/'' @ m @ ''.min.css'')
        = assets ?c1 (''css/'' @ m @ ''.min.css'')"
      by (rule compileEntries_other)
    moreover have "snd (compileEntries ext cfg es ?c1) = c'"
      by (simp only: run snd_conv)
    moreover have "assets ?c1 (''css/'' @ m @ ''.min.css'') = Some (RawSource compiled)"
      by (simp add: css emitAsset_same)
    ultimately have "assets c' (''css/'' @ m @ ''.min.css'') = Some (RawSource compiled)"
      by (simp only:)
    then show ?thesis using compiled n g by simp
  next
    case False
    then have "(n, file) \<in> set es" using Cons.prems(3) e by auto
    moreover have "distinct (map fst es)" using Cons.prems(1) by simp
    ultimately show ?thesis using run by (rule Cons.IH [rotated 2])
  qed
qed

subsection \<open>The copy stage\<close>

lemma copyFile_other:
  "\<not> prefix (path_relative outputPath (copy_to p) @ ''/'') k \<Longrightarrow>
   assets (copyFile outputPath p file c) k = assets c k"
  by (cases "file") (auto simp: copyFile_def)

lemma copyPattern_other:
  "\<not> prefix (path_relative outputPath (copy_to p) @ ''/'') k \<Longrightarrow>
   assets (copyPattern outputPath files p c) k = assets c k"
  unfolding copyPattern_def
  by (induction files arbitrary: c) (simp_all add: copyFile_other)

lemma copyPatterns_other:
  "\<forall>p\<in>set ps. \<not> prefix (path_relative outputPath (copy_to p) @ ''/'') k \<Longrightarrow>
   assets (fold (copyPattern outputPath files) ps c) k = assets c k"
  by (induction ps arbitrary: c) (simp_all add: copyPattern_other)

lemma copyAssets_other:
  "\<forall>p\<in>set (patterns cfg).
      \<not> prefix (path_relative (output_path cfg) (copy_to p) @ ''/'') k \<Longrightarrow>
   assets (copyAssets cfg files c) k = assets c k"
  unfolding copyAssets_def by (rule copyPatterns_other)

lemma copyFile_dom_mono: "dom (assets c) \<subseteq> dom (assets (copyFile outputPath p file c))"
  by (cases "file") (auto simp: copyFile_def)

lemma copyPattern_dom_mono:
  "dom (assets c) \<subseteq> dom (assets (copyPattern outputPath files p c))"
  unfolding copyPattern_def
proof (induction files arbitrary: c)
  case Nil
  then show ?case by simp
next
  case (Cons f fs)
  have "dom (assets c) \<subseteq> dom (assets (copyFile outputPath p f c))"
    by (rule copyFile_dom_mono)
  also have "\<dots> \<subseteq> dom (assets (fold (copyFile outputPath p) fs (copyFile outputPath p f c)))"
    by (rule Cons.IH)
  finally show ?case by simp
qed

lemma copyPatterns_dom_mono:
  "dom (assets c) \<subseteq> dom (assets (fold (copyPattern outputPath files) ps c))"
proof (induction ps arbitrary: c)
  case Nil
  then show ?case by simp
next
  case (Cons p ps)
  have "dom (assets c) \<subseteq> dom (assets (copyPattern outputPath files p c))"
    by (rule copyPattern_dom_mono)
  also have "\<dots> \<subseteq> dom (assets (fold (copyPattern outputPath files) ps
      (copyPattern outputPath files p c)))"
    by (rule Cons.IH)
  finally show ?case by simp
qed

lemma copyAssets_dom_mono: "dom (assets c) \<subseteq> dom (assets (copyAssets cfg files c))"
  unfolding copyAssets_def by (rule copyPatterns_dom_mono)

lemma copyFile_assets:
  "assets (copyFile outputPath p file c)
     = assets c ++ assets (copyFile outputPath p file emptyCompilation)"
  by (cases "file") (simp add: copyFile_def emptyCompilation_def)

lemma copyFile_errors: "errors (copyFile outputPath p file c) = errors c"
  by (cases "file") (simp add: copyFile_def)

lemma copyPattern_assets:
  "assets (copyPattern outputPath files p c)
     = assets c ++ assets (copyPattern outputPath files p emptyCompilation)"
  unfolding copyPattern_def
proof (induction files arbitrary: c)
  case Nil
  then show ?case by (simp add: emptyCompilation_def)
next
  case (Cons f fs)
  let ?g = "copyFile outputPath p"
  let ?E = "assets (fold ?g fs emptyCompilation)"
  have "assets (fold ?g (f # fs) c) = assets (?g f c) ++ ?E"
    using Cons.IH [of "?g f c"] by simp
  also have "\<dots> = (assets c ++ assets (?g f emptyCompilation)) ++ ?E"
    by (simp only: copyFile_assets [of outputPath p f c])
  also have "\<dots> = assets c ++ (assets (?g f emptyCompilation) ++ ?E)"
    by simp
  also have "assets (?g f emptyCompilation) ++ ?E = assets (fold ?g (f # fs) emptyCompilation)"
    using Cons.IH [of "?g f emptyCompilation"] by simp
  finally show ?case .
qed

lemma copyPattern_errors: "errors (copyPattern outputPath files p c) = errors c"
  unfolding copyPattern_def
  by (induction files arbitrary: c) (simp_all add: copyFile_errors)

lemma copyPattern_twice:
  "copyPattern outputPath files p (copyPattern outputPath files p c)
     = copyPattern outputPath files p c"
proof (rule compilation.equality)
  let ?E = "assets (copyPattern outputPath files p emptyCompilation)"
  have "assets (copyPattern outputPath files p (copyPattern outputPath files p c))
      = (assets c ++ ?E) ++ ?E"
    by (simp only: copyPattern_assets [of outputPath files p "copyPattern outputPath files p c"]
        copyPattern_assets [of outputPath files p c])
  also have "\<dots> = assets c ++ ?E"
    by (rule ext) (simp add: map_add_def split: option.splits)
  finally show "assets (copyPattern outputPath files p (copyPattern outputPath files p c))
      = assets (copyPattern outputPath files p c)"
    by (simp only: copyPattern_assets [of outputPath files p c])
  show "errors (copyPattern outputPath files p (copyPattern outputPath files p c))
      = errors (copyPattern outputPath files p c)"
    by (simp add: copyPattern_errors)
qed simp

text \<open>
  Claim C10. The configured pattern list is the list with the \<^verbatim>\<open>libs\<close> pattern listed once,
  followed by that pattern a second time; for every file system and every compilation
  the copy stage of the configured list gives the same compilation, hence the same output
  tree, as the copy stage of the list without the repetition: the second copy of
  \<^verbatim>\<open>libs\<close> stores the same bytes under the same names again.
\<close>

theorem copy_duplicate_pattern:
  "patterns module_exports = patterns_listed_once @ [last patterns_listed_once]
   \<and> copyAssets module_exports files c
       = copyAssets (module_exports\<lparr>patterns := patterns_listed_once\<rparr>) files c"
  by (simp add: copyAssets_def module_exports_def patterns_listed_once_def copyPattern_twice)

subsection \<open>The CSS files of a build\<close>

lemma copyAssets_configured_other:
  assumes "patterns cfg = patterns module_exports"
      and "output_path cfg = output_path module_exports"
      and "\<not> prefix ''images/'' k" and "\<not> prefix ''js/'' k" and "\<not> prefix ''libs/'' k"
  shows "assets (copyAssets cfg files c) k = assets c k"
  by (rule copyAssets_other) (simp add: assms module_exports_paths copy_targets)

lemma sealedAssets_NoneD:
  assumes "sealedAssets ext cfg files = (None, c)"
  obtains c0 where "compileEntries ext cfg (entry cfg) emptyCompilation = (None, c0)"
    and "c = copyAssets cfg files c0"
  using assms unfolding sealedAssets_def
  by (auto split: prod.splits option.splits)

lemma css_prefix_not_copied:
  "prefix ''css/'' k \<Longrightarrow> \<not> prefix ''images/'' k \<and> \<not> prefix ''js/'' k \<and> \<not> prefix ''libs/'' k"
  by (auto simp: prefix_def)

text \<open>
  Before the hook, the files below \<^verbatim>\<open>css/\<close> are one per entry point.
\<close>

lemma sealedAssets_css_files:
  assumes cfg: "cfg = module_exports\<lparr>entry := es\<rparr>"
      and names: "distinct (map fst es)"
      and sealed: "sealedAssets ext cfg files = (None, c)"
  shows "(\<forall>(n, file)\<in>set es. \<exists>css. sass ext file = Some css
            \<and> assets c (''css/'' @ n @ ''.min.css'') = Some (RawSource css))
       \<and> {k \<in> dom (assets c). prefix ''css/'' k} = (\<lambda>n. ''css/'' @ n @ ''.min.css'') ` fst ` set es
       \<and> card {k \<in> dom (assets c). prefix ''css/'' k} = length es
       \<and> map (\<lambda>(n, file). interpolate (css_filename module_exports) n) (entry module_exports)
           = [''css/app.min.css'', ''css/bootstrap.min.css'', ''css/icons.min.css'']"
proof -
  have tmpl: "css_filename cfg = ''css/[name].min.css''" "output_filename cfg = ''chunk/[name].js''"
    and pats: "patterns cfg = patterns module_exports" "output_path cfg = output_path module_exports"
    and es: "entry cfg = es"
    by (simp_all add: cfg module_exports_paths)
  from sealed obtain c0
    where comp: "compileEntries ext cfg es emptyCompilation = (None, c0)"
      and c: "c = copyAssets cfg files c0"
    by (rule sealedAssets_NoneD) (simp add: es)
  have copied: "assets c k = assets c0 k" if "prefix ''css/'' k" for k
    unfolding c using pats css_prefix_not_copied [OF that]
    by (intro copyAssets_configured_other) simp_all
  have dom0: "dom (assets c0) =
      (\<lambda>n. ''css/'' @ n @ ''.min.css'') ` fst ` set es \<union> (\<lambda>n. ''chunk/'' @ n @ ''.js'') ` fst ` set es"
    using compileEntries_dom [OF comp] by (simp add: tmpl emptyCompilation_def)
  have one: "\<forall>(n, file)\<in>set es. \<exists>css. sass ext file = Some css
            \<and> assets c (''css/'' @ n @ ''.min.css'') = Some (RawSource css)"
  proof (clarify)
    fix n path assume "(n, path) \<in> set es"
    from compileEntries_css [OF tmpl names comp this]
    obtain css where "sass ext path = Some css"
      and "assets c0 (''css/'' @ n @ ''.min.css'') = Some (RawSource css)" by blast
    moreover have "assets c (''css/'' @ n @ ''.min.css'') = assets c0 (''css/'' @ n @ ''.min.css'')"
      by (rule copied) simp
    ultimately show "\<exists>css. sass ext path = Some css
            \<and> assets c (''css/'' @ n @ ''.min.css'') = Some (RawSource css)" by simp
  qed
  have files: "{k \<in> dom (assets c). prefix ''css/'' k} = (\<lambda>n. ''css/'' @ n @ ''.min.css'') ` fst ` set es"
  proof (intro set_eqI iffI)
    fix k assume "k \<in> {k \<in> dom (assets c). prefix ''css/'' k}"
    then have p: "prefix ''css/'' k" and "k \<in> dom (assets c)" by simp_all
    then have "k \<in> dom (assets c0)" using copied [OF p] by (simp add: dom_def)
    then show "k \<in> (\<lambda>n. ''css/'' @ n @ ''.min.css'') ` fst ` set es"
      using p unfolding dom0 by auto
  next
    fix k assume k: "k \<in> (\<lambda>n. ''css/'' @ n @ ''.min.css'') ` fst ` set es"
    then have p: "prefix ''css/'' k" by auto
    from k have "k \<in> dom (assets c0)" unfolding dom0 by simp
    then have "k \<in> dom (assets c)" using copied [OF p] by (simp add: dom_def)
    then show "k \<in> {k \<in> dom (assets c). prefix ''css/'' k}" using p by simp
  qed
  have "card ((\<lambda>n. ''css/'' @ n @ ''.min.css'') ` fst ` set es) = card (fst ` set es)"
    by (rule card_image) (simp add: inj_on_def)
  also have "\<dots> = length es"
    using distinct_card [OF names] by simp
  finally have count: "card {k \<in> dom (assets c). prefix ''css/'' k} = length es"
    by (simp only: files)
  have "map (\<lambda>(n, file). interpolate (css_filename module_exports) n) (entry module_exports)
           = [''css/app.min.css'', ''css/bootstrap.min.css'', ''css/icons.min.css'']"
    by (simp add: module_exports_paths)
  with one files count show ?thesis by blast
qed

lemma GenerateRTL_raises_if_absent:
  assumes pair: "p \<in> set cssPairs"
      and absent: "assets c (ltr p) = None"
  shows "fst (GenerateRTL f c) \<noteq> None"
proof -
  from pair absent have "\<exists>r\<in>set cssPairs. assets c (ltr r) = None" by blast
  then obtain ps q qs
    where split: "cssPairs = ps @ q # qs"
      and q: "assets c (ltr q) = None"
      and ps: "\<forall>r\<in>set ps. assets c (ltr r) \<noteq> None"
    using split_list_first_prop [of cssPairs "\<lambda>r. assets c (ltr r) = None"] by blast
  have before: "\<forall>r\<in>set ps. ltr r \<in> dom (assets c)"
    using ps by (simp add: dom_def)
  have "q \<in> set cssPairs" "set ps \<subseteq> set cssPairs"
    by (auto simp: split)
  then have fresh: "ltr q \<notin> rtl ` set ps"
    using cssPairs_names(2) by blast
  have "GenerateRTL f c = (Some (TypeError (ltr q)), snd (generateRTL f ps c))"
    unfolding GenerateRTL_def split
    by (rule generateRTL_first_missing [OF before q fresh, THEN conjunct1])
  then show ?thesis by simp
qed

lemma build_NoneD:
  assumes "build ext cfg files = (None, c)"
  obtains c1 where "sealedAssets ext cfg files = (None, c1)"
    and "GenerateRTL (rtlcss_process ext) c1 = (None, c)"
  using assms unfolding build_def
  by (auto split: prod.splits option.splits)

lemma rtl_names_below_css: "\<forall>p\<in>set cssPairs. prefix ''css/'' (rtl p)"
  by (simp add: cssPairs_def)

text \<open>
  Claim C3, as amended. For every entry-point configuration with unique names (the
  templates and copy patterns being those of the configuration) on which the build
  completes, the output holds one CSS file per entry point: the file of entry point
  \<open>n\<close> is \<^verbatim>\<open>css/<n>.min.css\<close>, it holds the CSS compiled from the entry's source unless
  its name is also the RTL name of a pair, and different entry points have different
  files, as many as there are entry points. The files below \<^verbatim>\<open>css/\<close> in the output are
  these and the RTL variants \<^verbatim>\<open>css/app-rtl.min.css\<close> and \<^verbatim>\<open>css/bootstrap-rtl.min.css\<close>,
  which come from the pair list. The build completes only if \<^verbatim>\<open>app\<close> and
  \<^verbatim>\<open>bootstrap\<close> are among the entry points, since the hook reads their CSS outputs. With
  the configured entries \<^verbatim>\<open>app\<close>, \<^verbatim>\<open>bootstrap\<close> and \<^verbatim>\<open>icons\<close> the entry files are
  \<^verbatim>\<open>css/app.min.css\<close>, \<^verbatim>\<open>css/bootstrap.min.css\<close> and \<^verbatim>\<open>css/icons.min.css\<close>.
\<close>

theorem build_css_file_per_entry:
  assumes cfg: "cfg = module_exports\<lparr>entry := es\<rparr>"
      and names: "distinct (map fst es)"
      and completes: "build ext cfg files = (None, c)"
  shows "(\<forall>(n, file)\<in>set es. \<exists>css. sass ext file = Some css
            \<and> ''css/'' @ n @ ''.min.css'' \<in> dom (assets c)
            \<and> (''css/'' @ n @ ''.min.css'' \<notin> rtl ` set cssPairs \<longrightarrow>
                 assets c (''css/'' @ n @ ''.min.css'') = Some (RawSource css)))
       \<and> card ((\<lambda>n. ''css/'' @ n @ ''.min.css'') ` fst ` set es) = length es
       \<and> {k \<in> dom (assets c). prefix ''css/'' k}
           = (\<lambda>n. ''css/'' @ n @ ''.min.css'') ` fst ` set es \<union> rtl ` set cssPairs
       \<and> {''app'', ''bootstrap''} \<subseteq> fst ` set es
       \<and> map (\<lambda>(n, file). interpolate (css_filename module_exports) n) (entry module_exports)
           = [''css/app.min.css'', ''css/bootstrap.min.css'', ''css/icons.min.css'']"
proof -
  let ?f = "rtlcss_process ext"
  let ?css = "\<lambda>n. ''css/'' @ n @ ''.min.css''"
  from completes obtain c1
    where sealed: "sealedAssets ext cfg files = (None, c1)"
      and hook: "GenerateRTL ?f c1 = (None, c)"
    by (rule build_NoneD)
  note before = sealedAssets_css_files [OF cfg names sealed]
  have one1: "\<forall>(n, file)\<in>set es. \<exists>css. sass ext file = Some css
            \<and> assets c1 (?css n) = Some (RawSource css)"
    using before by blast
  have files1: "{k \<in> dom (assets c1). prefix ''css/'' k} = ?css ` fst ` set es"
    using before by blast
  have count: "card (?css ` fst ` set es) = length es"
    using before by (simp only: files1 [symmetric])
  have c: "c = snd (generateRTL ?f cssPairs c1)"
    and fin: "fst (generateRTL ?f cssPairs c1) = None"
    using hook by (simp_all add: GenerateRTL_def)
  have dom2: "dom (assets c) = dom (assets c1) \<union> rtl ` set cssPairs"
    unfolding c by (rule generateRTL_dom [OF fin])
  have kept: "assets c k = assets c1 k" if "k \<notin> rtl ` set cssPairs" for k
    unfolding c by (rule generateRTL_other [OF that])
  have one: "\<forall>(n, file)\<in>set es. \<exists>css. sass ext file = Some css
            \<and> ?css n \<in> dom (assets c)
            \<and> (?css n \<notin> rtl ` set cssPairs \<longrightarrow> assets c (?css n) = Some (RawSource css))"
  proof (clarify)
    fix n path assume "(n, path) \<in> set es"
    with one1 obtain css where css: "sass ext path = Some css"
      and a: "assets c1 (?css n) = Some (RawSource css)" by blast
    from a have "?css n \<in> dom (assets c)" unfolding dom2 by (simp add: dom_def)
    moreover have "?css n \<notin> rtl ` set cssPairs \<longrightarrow> assets c (?css n) = Some (RawSource css)"
      using kept [of "?css n"] a by simp
    ultimately show "\<exists>css. sass ext path = Some css
            \<and> ?css n \<in> dom (assets c)
            \<and> (?css n \<notin> rtl ` set cssPairs \<longrightarrow> assets c (?css n) = Some (RawSource css))"
      using css by blast
  qed
  have "{k \<in> dom (assets c). prefix ''css/'' k}
      = {k \<in> dom (assets c1). prefix ''css/'' k} \<union> rtl ` set cssPairs"
    unfolding dom2 using rtl_names_below_css by auto
  then have files: "{k \<in> dom (assets c). prefix ''css/'' k} = ?css ` fst ` set es \<union> rtl ` set cssPairs"
    by (simp only: files1)
  have present: "\<forall>p\<in>set cssPairs. ltr p \<in> dom (assets c1)"
  proof
    fix p assume p: "p \<in> set cssPairs"
    show "ltr p \<in> dom (assets c1)"
    proof (rule ccontr)
      assume "ltr p \<notin> dom (assets c1)"
      then have "assets c1 (ltr p) = None" by (simp add: dom_def)
      from GenerateRTL_raises_if_absent [OF p this, of ?f] hook show False by simp
    qed
  qed
  have entry_of: "m \<in> fst ` set es" if "?css m \<in> dom (assets c1)" for m
  proof -
    from that have "?css m \<in> {k \<in> dom (assets c1). prefix ''css/'' k}" by simp
    then have "?css m \<in> ?css ` fst ` set es" by (simp only: files1)
    then obtain n where "n \<in> fst ` set es" and "?css m = ?css n" by blast
    then show ?thesis by simp
  qed
  have "?css ''app'' \<in> dom (assets c1)" and "?css ''bootstrap'' \<in> dom (assets c1)"
    using present by (simp_all add: cssPairs_def)
  then have needed: "{''app'', ''bootstrap''} \<subseteq> fst ` set es"
    using entry_of by blast
  have "map (\<lambda>(n, file). interpolate (css_filename module_exports) n) (entry module_exports)
           = [''css/app.min.css'', ''css/bootstrap.min.css'', ''css/icons.min.css'']"
    by (simp add: module_exports_paths)
  with one count files needed show ?thesis by blast
qed

text \<open>
  The build of the sample project completes: the style sheet of \<^verbatim>\<open>icons\<close> holds its
  compiled CSS, and five files lie below \<^verbatim>\<open>css/\<close>, three of entry points and two RTL
  variants.
\<close>

theorem build_css_file_per_entry_witness:
  "assets (snd (build sample_collaborators module_exports sample_files)) ''css/icons.min.css''
     = Some (RawSource ''i{top:0}'')
   \<and> {k \<in> dom (assets (snd (build sample_collaborators module_exports sample_files))).
         prefix ''css/'' k}
     = {''css/app.min.css'', ''css/bootstrap.min.css'', ''css/icons.min.css'',
        ''css/app-rtl.min.css'', ''css/bootstrap-rtl.min.css''}"
proof -
  have cfg: "module_exports = module_exports\<lparr>entry := entry module_exports\<rparr>" by simp
  have names: "distinct (map fst (entry module_exports))"
    by (simp add: module_exports_paths)
  have completes: "build sample_collaborators module_exports sample_files
      = (None, snd (build sample_collaborators module_exports sample_files))"
    by (simp add: sample_eval)
  from build_css_file_per_entry [OF cfg names completes]
  show ?thesis
    by (simp add: module_exports_paths cssPairs_def sample_collaborators_def sample_sass_def
        insert_commute)
qed

text \<open>
  Claim C3 as stated fails. The configuration with the single entry point \<^verbatim>\<open>main\<close> has
  unique names and a source that compiles, and its build produces no output: the hook
  raises a \<open>TypeError\<close> for \<^verbatim>\<open>css/app.min.css\<close>, which no entry point produces.
\<close>

theorem build_entry_without_pair_counterexample:
  "distinct (map fst [(''main'', ''src/assets/scss/app.scss'')])
   \<and> sass sample_collaborators ''src/assets/scss/app.scss'' = Some ''a{float:left}''
   \<and> fst (build sample_collaborators
            (module_exports\<lparr>entry := [(''main'', ''src/assets/scss/app.scss'')]\<rparr>) sample_files)
       = Some (TypeError ''css/app.min.css'')"
  by (simp add: sample_eval)

text \<open>
  Claim C6. In every build, GenerateRTL runs only after the compile stage has completed
  for all entry points. If an entry point fails to compile, the build ends with that
  error and the hook does not run. Otherwise the hook runs on the compilation that the
  compile stage (and the copy stage after it) left: the CSS output of every entry point
  is in the asset collection when the hook starts, and it still is at the moment each
  pair is processed, that is, after any leading part \<open>ps\<close> of the pair list.
\<close>

theorem rtl_stage_after_compilation:
  "(\<forall>e c. sealedAssets ext cfg files = (Some e, c) \<longrightarrow> build ext cfg files = (Some e, c))
   \<and> (\<forall>c. sealedAssets ext cfg files = (None, c) \<longrightarrow>
         build ext cfg files = GenerateRTL (rtlcss_process ext) c
         \<and> (\<forall>ps qs. cssPairs = ps @ qs \<longrightarrow>
              (\<forall>(n, file)\<in>set (entry cfg).
                 interpolate (css_filename cfg) n
                   \<in> dom (assets (snd (generateRTL (rtlcss_process ext) ps c))))))"
proof (intro conjI allI impI)
  fix e c assume "sealedAssets ext cfg files = (Some e, c)"
  then show "build ext cfg files = (Some e, c)" by (simp add: build_def)
next
  fix c assume sealed: "sealedAssets ext cfg files = (None, c)"
  then show "build ext cfg files = GenerateRTL (rtlcss_process ext) c"
    by (simp add: build_def)
next
  fix c ps qs assume sealed: "sealedAssets ext cfg files = (None, c)"
  from sealed obtain c0
    where comp: "compileEntries ext cfg (entry cfg) emptyCompilation = (None, c0)"
      and c: "c = copyAssets cfg files c0"
    by (rule sealedAssets_NoneD)
  have "interpolate (css_filename cfg) n
          \<in> dom (assets (snd (generateRTL (rtlcss_process ext) ps c)))"
    if "(n, path) \<in> set (entry cfg)" for n path
  proof -
    have "interpolate (css_filename cfg) n \<in> dom (assets c0)"
      using compileEntries_dom [OF comp] that by force
    also have "dom (assets c0) \<subseteq> dom (assets c)"
      unfolding c by (rule copyAssets_dom_mono)
    also have "dom (assets c) \<subseteq> dom (assets (snd (generateRTL (rtlcss_process ext) ps c)))"
      by (rule generateRTL_dom_mono)
    finally show ?thesis .
  qed
  then show "\<forall>(n, file)\<in>set (entry cfg).
      interpolate (css_filename cfg) n
        \<in> dom (assets (snd (generateRTL (rtlcss_process ext) ps c)))"
    by blast
qed

text \<open>
  In the sample project the bootstrap style sheet is there when the second pair is
  processed.
\<close>

theorem rtl_stage_after_compilation_witness:
  "''css/bootstrap.min.css'' \<in> dom (assets (snd (generateRTL sample_flip
      [\<lparr>ltr = ''css/app.min.css'', rtl = ''css/app-rtl.min.css''\<rparr>]
      (snd (sealedAssets sample_collaborators module_exports sample_files)))))"
  using rtl_stage_after_compilation [of sample_collaborators module_exports sample_files]
  by (simp add: sample_eval)

text \<open>
  Claim C9. In every build of the configuration whose entry points compile, the hook
  completes and the assets it adds to the collection are exactly the RTL names of the
  configured pairs, \<^verbatim>\<open>css/app-rtl.min.css\<close> and \<^verbatim>\<open>css/bootstrap-rtl.min.css\<close>; the entry
  point \<^verbatim>\<open>icons\<close> has its \<^verbatim>\<open>css/icons.min.css\<close> and no \<^verbatim>\<open>css/icons-rtl.min.css\<close>.
\<close>

theorem rtl_assets_of_a_build:
  assumes sealed: "sealedAssets ext module_exports files = (None, c)"
  shows "rtl ` set cssPairs = {''css/app-rtl.min.css'', ''css/bootstrap-rtl.min.css''}
       \<and> fst (build ext module_exports files) = None
       \<and> dom (assets (snd (build ext module_exports files))) - dom (assets c)
           = rtl ` set cssPairs
       \<and> ''css/icons.min.css'' \<in> dom (assets (snd (build ext module_exports files)))
       \<and> ''css/icons-rtl.min.css'' \<notin> dom (assets (snd (build ext module_exports files)))"
proof -
  let ?f = "rtlcss_process ext"
  from sealed obtain c0
    where comp: "compileEntries ext module_exports (entry module_exports) emptyCompilation
                   = (None, c0)"
      and c: "c = copyAssets module_exports files c0"
    by (rule sealedAssets_NoneD)
  have names: "rtl ` set cssPairs = {''css/app-rtl.min.css'', ''css/bootstrap-rtl.min.css''}"
    by (simp add: cssPairs_def)
  have dom0: "dom (assets c0) =
      {''css/app.min.css'', ''css/bootstrap.min.css'', ''css/icons.min.css'',
       ''chunk/app.js'', ''chunk/bootstrap.js'', ''chunk/icons.js''}"
    using compileEntries_dom [OF comp] by (auto simp: module_exports_paths emptyCompilation_def)
  have mono: "dom (assets c0) \<subseteq> dom (assets c)"
    unfolding c by (rule copyAssets_dom_mono)
  have copied: "assets c k = assets c0 k" if "prefix ''css/'' k" for k
    unfolding c using css_prefix_not_copied [OF that]
    by (intro copyAssets_configured_other) simp_all
  have run: "build ext module_exports files = generateRTL ?f cssPairs c"
    by (simp add: build_def sealed GenerateRTL_def)
  have "\<forall>q\<in>set cssPairs. ltr q \<in> dom (assets c)"
    using mono by (simp add: cssPairs_def dom0 subset_iff)
  then have completes: "fst (generateRTL ?f cssPairs c) = None"
    by (rule generateRTL_completes)
  then have dom2: "dom (assets (snd (generateRTL ?f cssPairs c))) = dom (assets c) \<union> rtl ` set cssPairs"
    by (rule generateRTL_dom)
  have absent: "k \<notin> dom (assets c)"
    if "k \<in> {''css/app-rtl.min.css'', ''css/bootstrap-rtl.min.css'', ''css/icons-rtl.min.css''}" for k
  proof -
    from that have "prefix ''css/'' k" by auto
    then have "assets c k = assets c0 k" by (rule copied)
    moreover have "k \<notin> dom (assets c0)" using that unfolding dom0 by auto
    ultimately show ?thesis by (simp add: dom_def)
  qed
  have new: "dom (assets (snd (generateRTL ?f cssPairs c))) - dom (assets c) = rtl ` set cssPairs"
    unfolding dom2 using absent names by auto
  have icons: "''css/icons.min.css'' \<in> dom (assets (snd (generateRTL ?f cssPairs c)))"
    unfolding dom2 using mono dom0 by auto
  have no_icons_rtl: "''css/icons-rtl.min.css'' \<notin> dom (assets (snd (generateRTL ?f cssPairs c)))"
    unfolding dom2 names using absent by simp
  show ?thesis
    unfolding run using names completes new icons no_icons_rtl by simp
qed

text \<open>The build of the sample project completes and adds the two RTL style sheets.\<close>

theorem rtl_assets_of_a_build_witness:
  "fst (build sample_collaborators module_exports sample_files) = None
   \<and> dom (assets (snd (build sample_collaborators module_exports sample_files)))
       - dom (assets (snd (sealedAssets sample_collaborators module_exports sample_files)))
       = {''css/app-rtl.min.css'', ''css/bootstrap-rtl.min.css''}"
  using rtl_assets_of_a_build [of sample_collaborators sample_files
      "snd (sealedAssets sample_collaborators module_exports sample_files)"]
  by (simp add: sample_eval)

end
